theory Spec2Isabelle
  imports Complex_Main
begin

section \<open>JavaScript values\<close>

text \<open>
  The catalog holds documents read with \<open>JSON.parse\<close> and request bodies parsed by
  \<open>express.json()\<close>. A number is modelled by its exact rational value (the code's IEEE
  doubles agree with it on every integer below \<open>2^53\<close>), with \<open>NaN\<close> and the two
  infinities as separate values. An object is the list of its own properties in
  enumeration order; a well-formed object has no key twice. Strings are lists of code
  units below 256.
  Property reads are reads of own properties: keys that name a member inherited from
  \<open>Object.prototype\<close> (\<open>constructor\<close>, \<open>__proto__\<close>, ...) are outside this model.
\<close>

datatype jsnum = NaN | Fin rat | PosInf | NegInf

datatype jsval =
    JUndef
  | JNull
  | JBool bool
  | JNum jsnum
  | JStr string
  | JArr "jsval list"
  | JObj "(string \<times> jsval) list"

type_synonym obj = "(string \<times> jsval) list"

text \<open>\<open>o[k]\<close>: the value of a property, \<open>undefined\<close> when there is none.\<close>

definition get :: "obj \<Rightarrow> string \<Rightarrow> jsval" where
  "get ob k = (case map_of ob k of None \<Rightarrow> JUndef | Some v \<Rightarrow> v)"

text \<open>
  \<open>o[k] = v\<close>: an existing key keeps its place, a new key goes last. (JavaScript
  enumerates integer-like keys before the others; nation codes and field names are not
  integer-like, and no property below depends on the position of a key.)
\<close>

fun set_prop :: "string \<Rightarrow> 'v \<Rightarrow> (string \<times> 'v) list \<Rightarrow> (string \<times> 'v) list" where
  "set_prop k v [] = [(k, v)]"
| "set_prop k v ((k', v') # rest) =
     (if k = k' then (k, v) # rest else (k', v') # set_prop k v rest)"

text \<open>The spread \<open>{...target, ...source}\<close> copies the properties of the source in order.\<close>

fun assign :: "obj \<Rightarrow> obj \<Rightarrow> obj" where
  "assign target [] = target"
| "assign target ((k, v) # rest) = assign (set_prop k v target) rest"

definition wf_obj :: "obj \<Rightarrow> bool" where
  "wf_obj ob = distinct (map fst ob)"

text \<open>\<open>ToBoolean\<close>, as used by \<open>!x\<close>, \<open>x || y\<close> and \<open>x && y\<close>.\<close>

fun truthy :: "jsval \<Rightarrow> bool" where
  "truthy JUndef = False"
| "truthy JNull = False"
| "truthy (JBool b) = b"
| "truthy (JNum n) = (n \<noteq> NaN \<and> n \<noteq> Fin 0)"
| "truthy (JStr s) = (s \<noteq> [])"
| "truthy (JArr xs) = True"
| "truthy (JObj ps) = True"

definition js_or :: "jsval \<Rightarrow> jsval \<Rightarrow> jsval" where
  "js_or a b = (if truthy a then a else b)"

fun is_string :: "jsval \<Rightarrow> bool" where
  "is_string (JStr s) = True"
| "is_string v = False"

fun is_number :: "jsval \<Rightarrow> bool" where
  "is_number (JNum n) = True"
| "is_number v = False"

text \<open>
  \<open>a === b\<close> where \<open>b\<close> is a string or a number, the only use the handlers make of it.
  \<open>NaN\<close> equals nothing; an array or object never equals a primitive.
\<close>

fun strict_eq :: "jsval \<Rightarrow> jsval \<Rightarrow> bool" where
  "strict_eq (JNum a) (JNum b) = (a \<noteq> NaN \<and> a = b)"
| "strict_eq (JStr s) (JStr t) = (s = t)"
| "strict_eq a b = False"

subsection \<open>Numbers\<close>

fun num_lt :: "jsnum \<Rightarrow> jsnum \<Rightarrow> bool" where
  "num_lt NaN b = False"
| "num_lt a NaN = False"
| "num_lt PosInf b = False"
| "num_lt a NegInf = False"
| "num_lt NegInf b = True"
| "num_lt a PosInf = True"
| "num_lt (Fin x) (Fin y) = (x < y)"

definition num_max2 :: "jsnum \<Rightarrow> jsnum \<Rightarrow> jsnum" where
  "num_max2 a b = (if a = NaN \<or> b = NaN then NaN else if num_lt a b then b else a)"

text \<open>\<open>Math.max(...xs)\<close>: \<open>-Infinity\<close> for no argument, \<open>NaN\<close> as soon as one argument is.\<close>

definition Math_max :: "jsnum list \<Rightarrow> jsnum" where
  "Math_max xs = foldl num_max2 NegInf xs"

fun num_add :: "jsnum \<Rightarrow> rat \<Rightarrow> jsnum" where
  "num_add (Fin x) d = Fin (x + d)"
| "num_add n d = n"

fun num_neg :: "jsnum \<Rightarrow> jsnum" where
  "num_neg (Fin x) = Fin (- x)"
| "num_neg PosInf = NegInf"
| "num_neg NegInf = PosInf"
| "num_neg NaN = NaN"

subsection \<open>Strings\<close>

definition is_ws :: "char \<Rightarrow> bool" where
  "is_ws c = (c \<in> set [CHR 0x09, CHR 0x0A, CHR 0x0B, CHR 0x0C, CHR 0x0D, CHR 0x20, CHR 0xA0])"

definition trim :: "string \<Rightarrow> string" where
  "trim s = rev (dropWhile is_ws (rev (dropWhile is_ws s)))"

definition digit_val :: "char \<Rightarrow> nat option" where
  "digit_val c = (let n = (of_char c :: nat) in
     if 48 \<le> n \<and> n \<le> 57 then Some (n - 48)
     else if 97 \<le> n \<and> n \<le> 122 then Some (n - 87)
     else if 65 \<le> n \<and> n \<le> 90 then Some (n - 55)
     else None)"

definition is_radix_digit :: "nat \<Rightarrow> char \<Rightarrow> bool" where
  "is_radix_digit R c = (case digit_val c of None \<Rightarrow> False | Some d \<Rightarrow> d < R)"

definition digits_value :: "nat \<Rightarrow> string \<Rightarrow> nat" where
  "digits_value R ds =
     foldl (\<lambda>acc c. acc * R + (case digit_val c of None \<Rightarrow> 0 | Some d \<Rightarrow> d)) 0 ds"

text \<open>A non-empty run of digits of the radix, up to the end of the string.\<close>

definition all_digits :: "nat \<Rightarrow> string \<Rightarrow> nat option" where
  "all_digits R ds =
     (if ds \<noteq> [] \<and> list_all (is_radix_digit R) ds then Some (digits_value R ds) else None)"

text \<open>
  \<open>parseInt(s)\<close> with no radix: leading white space and a sign are skipped, \<open>0x\<close> selects
  radix 16, and the longest prefix of digits is read; the rest of the string is ignored.
  \<open>None\<close> stands for \<open>NaN\<close>.
\<close>

definition parseInt :: "string \<Rightarrow> int option" where
  "parseInt s =
     (let s1 = dropWhile is_ws s;
          neg = (case s1 of [] \<Rightarrow> False | c # r \<Rightarrow> c = CHR ''-'');
          s2 = (case s1 of [] \<Rightarrow> [] | c # r \<Rightarrow> if c = CHR ''-'' \<or> c = CHR ''+'' then r else s1);
          hex = (case s2 of a # b # r \<Rightarrow> a = CHR ''0'' \<and> (b = CHR ''x'' \<or> b = CHR ''X'') | _ \<Rightarrow> False);
          R = (if hex then 16 else 10);
          s3 = (if hex then drop 2 s2 else s2);
          Z = takeWhile (is_radix_digit R) s3
      in if Z = [] then None
         else Some ((if neg then - 1 else 1) * int (digits_value R Z)))"

definition num_of_parse :: "int option \<Rightarrow> jsnum" where
  "num_of_parse p = (case p of None \<Rightarrow> NaN | Some n \<Rightarrow> Fin (of_int n))"

text \<open>
  \<open>Number(s)\<close> on a string, which \<open>isNaN(s)\<close> applies first: the whole trimmed string has
  to be a numeric literal (decimal with optional fraction and exponent, \<open>Infinity\<close>, or an
  unsigned \<open>0x\<close>, \<open>0o\<close>, \<open>0b\<close> integer); the empty string is 0.
\<close>

definition non_decimal_literal :: "string \<Rightarrow> nat option" where
  "non_decimal_literal t =
     (case t of
        a # b # r \<Rightarrow>
          if a \<noteq> CHR ''0'' then None
          else if b = CHR ''x'' \<or> b = CHR ''X'' then all_digits 16 r
          else if b = CHR ''o'' \<or> b = CHR ''O'' then all_digits 8 r
          else if b = CHR ''b'' \<or> b = CHR ''B'' then all_digits 2 r
          else None
      | _ \<Rightarrow> None)"

definition exponent_part :: "string \<Rightarrow> int option" where
  "exponent_part r =
     (case r of
        [] \<Rightarrow> Some 0
      | c # t \<Rightarrow>
          if c = CHR ''e'' \<or> c = CHR ''E'' then
            (case t of
               [] \<Rightarrow> None
             | s # d \<Rightarrow>
                 if s = CHR ''-'' then map_option (\<lambda>n. - int n) (all_digits 10 d)
                 else if s = CHR ''+'' then map_option int (all_digits 10 d)
                 else map_option int (all_digits 10 t))
          else None)"

definition scale10 :: "rat \<Rightarrow> int \<Rightarrow> rat" where
  "scale10 m e = (if 0 \<le> e then m * 10 ^ nat e else m / 10 ^ nat (- e))"

definition unsigned_decimal :: "string \<Rightarrow> jsnum" where
  "unsigned_decimal u =
     (if u = ''Infinity'' then PosInf
      else
        let ip = takeWhile (is_radix_digit 10) u;
            r1 = dropWhile (is_radix_digit 10) u;
            dot = (case r1 of [] \<Rightarrow> False | c # t \<Rightarrow> c = CHR ''.'');
            fp = (if dot then takeWhile (is_radix_digit 10) (tl r1) else []);
            r2 = (if dot then dropWhile (is_radix_digit 10) (tl r1) else r1)
        in if ip = [] \<and> fp = [] then NaN
           else (case exponent_part r2 of
                   None \<Rightarrow> NaN
                 | Some e \<Rightarrow>
                     Fin (scale10 (of_nat (digits_value 10 (ip @ fp))) (e - int (length fp)))))"

definition StringToNumber :: "string \<Rightarrow> jsnum" where
  "StringToNumber s =
     (let t = trim s in
      if t = [] then Fin 0
      else (case non_decimal_literal t of
              Some n \<Rightarrow> Fin (of_nat n)
            | None \<Rightarrow>
                if hd t = CHR ''-'' then num_neg (unsigned_decimal (tl t))
                else if hd t = CHR ''+'' then unsigned_decimal (tl t)
                else unsigned_decimal t))"

definition isNaN :: "string \<Rightarrow> bool" where
  "isNaN s = (StringToNumber s = NaN)"

text \<open>
  \<open>ToNumber\<close> on a value, as \<open>Math.max\<close> applies it. An array is converted through its
  string form: empty and \<open>[null]\<close> give 0, a one-element array gives what its element's
  string gives, anything longer contains a comma and gives \<open>NaN\<close>.
\<close>

fun toNumber :: "jsval \<Rightarrow> jsnum" where
  "toNumber JUndef = NaN"
| "toNumber JNull = Fin 0"
| "toNumber (JBool b) = (if b then Fin 1 else Fin 0)"
| "toNumber (JNum n) = n"
| "toNumber (JStr s) = StringToNumber s"
| "toNumber (JArr []) = Fin 0"
| "toNumber (JArr [JUndef]) = Fin 0"
| "toNumber (JArr [JNull]) = Fin 0"
| "toNumber (JArr [JBool b]) = NaN"
| "toNumber (JArr [JNum n]) = n"
| "toNumber (JArr [JStr s]) = StringToNumber s"
| "toNumber (JArr [JArr ys]) = toNumber (JArr ys)"
| "toNumber (JArr [JObj ps]) = NaN"
| "toNumber (JArr (x # y # zs)) = NaN"
| "toNumber (JObj ps) = NaN"

text \<open>\<open>s.toLowerCase()\<close> and \<open>s.includes(q)\<close>.\<close>

definition lower_char :: "char \<Rightarrow> char" where
  "lower_char c = (let n = (of_char c :: nat) in
     if (65 \<le> n \<and> n \<le> 90) \<or> (192 \<le> n \<and> n \<le> 222 \<and> n \<noteq> 215)
     then char_of (n + 32) else c)"

definition toLowerCase :: "string \<Rightarrow> string" where
  "toLowerCase s = map lower_char s"

fun starts_with :: "string \<Rightarrow> string \<Rightarrow> bool" where
  "starts_with s [] = True"
| "starts_with [] (q # qs) = False"
| "starts_with (c # cs) (q # qs) = (c = q \<and> starts_with cs qs)"

fun str_includes :: "string \<Rightarrow> string \<Rightarrow> bool" where
  "str_includes [] q = (q = [])"
| "str_includes (c # cs) q = (starts_with (c # cs) q \<or> str_includes cs q)"

section \<open>The catalog and the category registry\<close>

datatype category = Aircraft | Helicopters | Tanks | Bluewater | Coastal

fun category_name :: "category \<Rightarrow> string" where
  "category_name Aircraft = ''aircraft''"
| "category_name Helicopters = ''helicopters''"
| "category_name Tanks = ''tanks''"
| "category_name Bluewater = ''bluewater''"
| "category_name Coastal = ''coastal''"

fun idFieldForCategory :: "category \<Rightarrow> string" where
  "idFieldForCategory Aircraft = ''aircraftid''"
| "idFieldForCategory Helicopters = ''helicopterid''"
| "idFieldForCategory Tanks = ''tankid''"
| "idFieldForCategory Bluewater = ''shipid''"
| "idFieldForCategory Coastal = ''shipid''"

text \<open>
  The registry \<open>idFieldForCategory\<close> has an entry for each of the five categories the
  factory is mounted for, so the fallback \<open>"id_field"\<close> of \<open>validateGenericData\<close> is
  never taken. \<open>filePathForCategory\<close> only names the file \<open>saveJSON\<close> writes; the
  outcome of that write is a parameter of the handlers below.

  One category's document, \<open>dataCache.vehicles[category]\<close>: nation keys in enumeration
  order, each with its array of records (objects). The cache entry is \<open>None\<close> when the
  file could not be loaded (\<open>loadJSON\<close> returned \<open>null\<close>).
\<close>

type_synonym collection = "(string \<times> obj list) list"

text \<open>\<open>category.slice(0, -1)\<close>, the name without its last letter.\<close>

definition singular :: "category \<Rightarrow> string" where
  "singular category = butlast (category_name category)"

subsection \<open>Responses\<close>

datatype details =
    DNull
  | DStr string
  | DErrors "string list"
  | DAvailable "string list"

text \<open>
  What a handler sends: an error envelope with its status, a record with its status, the
  by-nation listing, a page of the flattened listing (total, page, limit, total pages,
  slice), or an empty 204. \<open>Thrown\<close> stands for an exception that leaves the handler:
  the handler itself sends nothing (Express answers the exception of a synchronous
  handler through the error middleware and leaves an \<open>async\<close> handler's request
  unanswered).
\<close>

datatype response =
    Err nat string details
  | Item nat obj
  | NationList string nat "obj list"
  | Page nat int int int "obj list"
  | NoContent
  | Thrown


text \<open>The slice carried by a page of the flattened listing.\<close>

fun page_items :: "response \<Rightarrow> obj list" where
  "page_items (Page n page limit pages rs) = rs"
| "page_items r = []"

subsection \<open>Helpers of the route factory\<close>

definition nation_items :: "collection \<Rightarrow> string \<Rightarrow> obj list" where
  "nation_items collection nation =
     (case map_of collection nation of None \<Rightarrow> [] | Some xs \<Rightarrow> xs)"

text \<open>
  \<open>getNextIdForCategory\<close>: 1 for a missing or empty list, otherwise
  \<open>Math.max(...nationItems.map(i => i.id || 0)) + 1\<close>. A nation's entry is an array by
  its type, so the \<open>Array.isArray\<close> test always passes.
\<close>

definition getNextIdForCategory :: "collection option \<Rightarrow> string \<Rightarrow> jsnum" where
  "getNextIdForCategory cache nation =
     (let collection = (case cache of None \<Rightarrow> [] | Some c \<Rightarrow> c);
          nationItems = nation_items collection nation
      in if nationItems = [] then Fin 1
         else num_add
                (Math_max (map (\<lambda>i. toNumber (js_or (get i ''id'') (JNum (Fin 0)))) nationItems))
                1)"

text \<open>\<open>!v || typeof v !== 'string' || v.trim() === ''\<close>\<close>

definition not_filled :: "jsval \<Rightarrow> bool" where
  "not_filled v =
     (\<not> truthy v \<or> \<not> is_string v \<or> (case v of JStr s \<Rightarrow> trim s = [] | _ \<Rightarrow> False))"

definition validateGenericData :: "category \<Rightarrow> obj \<Rightarrow> bool \<Rightarrow> string list" where
  "validateGenericData category data isUpdate =
     (let idField = idFieldForCategory category;
          rank = get data ''rank'';
          br = get data ''br'';
          crew = get data ''crew''
      in (if \<not> isUpdate \<and> not_filled (get data idField)
          then [idField @ '' is required and must be a non-empty string''] else [])
       @ (if \<not> isUpdate \<and> not_filled (get data ''name'')
          then [''name is required and must be a non-empty string''] else [])
       @ (if rank \<noteq> JUndef \<and>
             (\<not> is_number rank \<or> num_lt (toNumber rank) (Fin 1) \<or> num_lt (Fin 8) (toNumber rank))
          then [''rank must be a number between 1 and 8''] else [])
       @ (if br \<noteq> JUndef \<and>
             (\<not> is_number br \<or> num_lt (toNumber br) (Fin 1) \<or> num_lt (Fin 15) (toNumber br))
          then [''br (battle rating) must be a number between 1.0 and 15.0''] else [])
       @ (if crew \<noteq> JUndef \<and> (\<not> is_number crew \<or> num_lt (toNumber crew) (Fin 1))
          then [''crew must be a positive number''] else []))"

text \<open>
  The identifier of a route is a string. \<open>isNumeric = !isNaN(identifier)\<close>,
  \<open>searchId = isNumeric ? parseInt(identifier) : identifier\<close>, and a record matches when
  \<open>i[idField] === identifier || i.id === searchId\<close>.
\<close>

definition searchId :: "string \<Rightarrow> jsval" where
  "searchId identifier =
     (if \<not> isNaN identifier then JNum (num_of_parse (parseInt identifier))
      else JStr identifier)"

definition matches :: "string \<Rightarrow> string \<Rightarrow> obj \<Rightarrow> bool" where
  "matches idField identifier i =
     (strict_eq (get i idField) (JStr identifier) \<or> strict_eq (get i ''id'') (searchId identifier))"

text \<open>\<open>xs.findIndex(p)\<close>, with \<open>None\<close> for \<open>-1\<close>.\<close>

fun findIndex :: "('a \<Rightarrow> bool) \<Rightarrow> 'a list \<Rightarrow> nat option" where
  "findIndex p [] = None"
| "findIndex p (x # xs) = (if p x then Some 0 else map_option Suc (findIndex p xs))"

text \<open>
  \<open>xs.slice(start, end)\<close>: a negative index counts from the end, both are clamped to the
  array.
\<close>

definition js_slice :: "'a list \<Rightarrow> int \<Rightarrow> int \<Rightarrow> 'a list" where
  "js_slice xs start end' =
     (let len = int (length xs);
          k = (if start < 0 then max (len + start) 0 else min start len);
          final = (if end' < 0 then max (len + end') 0 else min end' len)
      in take (nat (final - k)) (drop (nat k) xs))"

text \<open>
  A query parameter is a string or missing; \<open>parseInt(q) || d\<close> is the default \<open>d\<close> when
  the parse gives \<open>NaN\<close> or 0.
\<close>

definition parse_or :: "string option \<Rightarrow> int \<Rightarrow> int" where
  "parse_or q d =
     (case q of
        None \<Rightarrow> d
      | Some s \<Rightarrow> (case parseInt s of None \<Rightarrow> d | Some n \<Rightarrow> if n = 0 then d else n))"

definition page_of :: "string option \<Rightarrow> int" where
  "page_of q = max 1 (parse_or q 1)"

definition limit_of :: "string option \<Rightarrow> int" where
  "limit_of q = min 100 (max 1 (parse_or q 50))"

definition paginate :: "'a list \<Rightarrow> int \<Rightarrow> int \<Rightarrow> 'a list" where
  "paginate allItems page limit =
     (let startIndex = (page - 1) * limit
      in js_slice allItems startIndex (startIndex + limit))"

definition totalPages :: "nat \<Rightarrow> int \<Rightarrow> int" where
  "totalPages n limit = \<lceil>(of_nat n :: rat) / of_int limit\<rceil>"

text \<open>
  The search filter: \<open>v && v.toLowerCase().includes(query)\<close> is skipped for a falsy \<open>v\<close>
  and throws a \<open>TypeError\<close> (\<open>None\<close>) for a truthy value that is not a string.
\<close>

definition field_has :: "jsval \<Rightarrow> string \<Rightarrow> bool option" where
  "field_has v query =
     (if \<not> truthy v then Some False
      else (case v of JStr s \<Rightarrow> Some (str_includes (toLowerCase s) query) | _ \<Rightarrow> None))"

definition item_has :: "string \<Rightarrow> string \<Rightarrow> obj \<Rightarrow> bool option" where
  "item_has idField query i =
     (case field_has (get i ''name'') query of
        None \<Rightarrow> None
      | Some True \<Rightarrow> Some True
      | Some False \<Rightarrow>
          (case field_has (get i idField) query of
             None \<Rightarrow> None
           | Some True \<Rightarrow> Some True
           | Some False \<Rightarrow> field_has (get i ''nation'') query))"

fun filter_items :: "('a \<Rightarrow> bool option) \<Rightarrow> 'a list \<Rightarrow> 'a list option" where
  "filter_items p [] = Some []"
| "filter_items p (x # xs) =
     (case p x of
        None \<Rightarrow> None
      | Some b \<Rightarrow>
          (case filter_items p xs of
             None \<Rightarrow> None
           | Some rest \<Rightarrow> Some (if b then x # rest else rest)))"

section \<open>The route factory \<open>mountCRUDForCategory\<close>\<close>

text \<open>
  Each handler reads and writes the cache entry of its category. A handler that mutates
  returns the entry it leaves behind together with its response. \<open>saved\<close> is what
  \<open>saveJSON\<close> answers for this request: \<open>False\<close> when the write or the rename failed.
  A request body is a JSON object.
\<close>

definition quoted :: "string \<Rightarrow> string" where
  "quoted s = [CHR 0x27] @ s @ [CHR 0x27]"

text \<open>
  The search step of the flattened listing: with a non-empty \<open>q\<close> the items are
  filtered, and a \<open>TypeError\<close> in the filter (\<open>None\<close>) ends the request.
\<close>

definition search_items :: "category \<Rightarrow> string option \<Rightarrow> obj list \<Rightarrow> obj list option" where
  "search_items category q allItems =
     (case q of
        None \<Rightarrow> Some allItems
      | Some s \<Rightarrow>
          if s = [] then Some allItems
          else filter_items (item_has (idFieldForCategory category) (toLowerCase s)) allItems)"

definition get_all ::
  "category \<Rightarrow> string option \<Rightarrow> string option \<Rightarrow> string option \<Rightarrow> collection option \<Rightarrow> response" where
  "get_all category q pageq limitq cache =
     (let collection = (case cache of None \<Rightarrow> [] | Some c \<Rightarrow> c);
          allItems = concat (map snd collection)
      in case search_items category q allItems of
           None \<Rightarrow> Thrown
         | Some items \<Rightarrow>
             let page = page_of pageq;
                 limit = limit_of limitq
             in Page (length items) page limit (totalPages (length items) limit)
                  (paginate items page limit))"



definition post_create ::
  "category \<Rightarrow> bool \<Rightarrow> string \<Rightarrow> obj \<Rightarrow> collection option \<Rightarrow> collection option \<times> response" where
  "post_create category saved nation body cache =
     (case cache of
        None \<Rightarrow> (None, Err 500 (category_name category @ '' data not loaded'') DNull)
      | Some collection0 \<Rightarrow>
          let collection =
                (if map_of collection0 nation = None then set_prop nation [] collection0
                 else collection0);
              idField = idFieldForCategory category;
              incomingId = get body idField;
              name = get body ''name''
          in if not_filled incomingId \<or> not_filled name then
               (Some collection,
                Err 400 ''Missing required fields''
                  (DStr (''Both '' @ quoted idField @ '' and '' @ quoted ''name''
                         @ '' are required and must be non-empty strings'')))
             else if List.find (\<lambda>i. strict_eq (get i idField) incomingId)
                       (nation_items collection nation) \<noteq> None then
               (Some collection,
                Err 409 (singular category @ '' already exists'')
                  (DStr (''An item with '' @ quoted idField @ '' ''
                         @ quoted (case incomingId of JStr s \<Rightarrow> s | _ \<Rightarrow> [])
                         @ '' already exists in '' @ nation)))
             else
               let newItem =
                     assign [(''id'', JNum (getNextIdForCategory (Some collection) nation)),
                             (''nation'', JStr nation)] body;
                   pushed = set_prop nation (nation_items collection nation @ [newItem]) collection
               in if \<not> saved then
                    (Some (set_prop nation (butlast (nation_items pushed nation)) pushed),
                     Err 500 (''Failed to save '' @ category_name category) DNull)
                  else (Some pushed, Item 201 newItem))"

text \<open>
  \<open>{...item, ...body, id: item.id, nation: item.nation, [idField]: item[idField]}\<close>
\<close>

definition merged :: "string \<Rightarrow> obj \<Rightarrow> obj \<Rightarrow> obj" where
  "merged idField item body =
     set_prop idField (get item idField)
       (set_prop ''nation'' (get item ''nation'')
          (set_prop ''id'' (get item ''id'') (assign (assign [] item) body)))"

definition patch_update ::
  "category \<Rightarrow> bool \<Rightarrow> string \<Rightarrow> string \<Rightarrow> obj \<Rightarrow> collection option
     \<Rightarrow> collection option \<times> response" where
  "patch_update category saved nation identifier body cache =
     (case cache of
        None \<Rightarrow> (None, Err 404 (''Nation not found: '' @ nation) DNull)
      | Some collection \<Rightarrow>
          (case map_of collection nation of
             None \<Rightarrow> (Some collection, Err 404 (''Nation not found: '' @ nation) DNull)
           | Some nationItems \<Rightarrow>
               let validationErrors = validateGenericData category body True
               in if validationErrors \<noteq> [] then
                    (Some collection, Err 400 ''Validation failed'' (DErrors validationErrors))
                  else
                    let idField = idFieldForCategory category
                    in (case findIndex (matches idField identifier) nationItems of
                          None \<Rightarrow>
                            (Some collection,
                             Err 404 (singular category @ '' not found with identifier: ''
                                      @ identifier) DNull)
                        | Some index \<Rightarrow>
                            let original = assign [] (nationItems ! index);
                                updated = merged idField (nationItems ! index) body;
                                written = nationItems[index := updated];
                                stored = set_prop nation written collection
                            in if \<not> saved then
                                 (Some (set_prop nation (written[index := original]) stored),
                                  Err 500 (''Failed to update '' @ singular category) DNull)
                               else (Some stored, Item 200 updated))))"

definition delete_remove ::
  "category \<Rightarrow> bool \<Rightarrow> string \<Rightarrow> string \<Rightarrow> collection option \<Rightarrow> collection option \<times> response" where
  "delete_remove category saved nation identifier cache =
     (case cache of
        None \<Rightarrow> (None, Err 404 (''Nation not found: '' @ nation) DNull)
      | Some collection \<Rightarrow>
          (case map_of collection nation of
             None \<Rightarrow> (Some collection, Err 404 (''Nation not found: '' @ nation) DNull)
           | Some nationItems \<Rightarrow>
               let idField = idFieldForCategory category
               in (case findIndex (matches idField identifier) nationItems of
                     None \<Rightarrow>
                       (Some collection,
                        Err 404 (singular category @ '' not found with identifier: ''
                                 @ identifier) DNull)
                   | Some index \<Rightarrow>
                       let deleted = nationItems ! index;
                           spliced = take index nationItems @ drop (Suc index) nationItems;
                           stored = set_prop nation spliced collection
                       in if \<not> saved then
                            (Some (set_prop nation
                                     (take index spliced @ [deleted] @ drop index spliced) stored),
                             Err 500 (''Failed to delete '' @ singular category) DNull)
                          else (Some stored, NoContent))))"

section \<open>The aircraft routes of \<open>server.js\<close>\<close>

text \<open>
  \<open>server.js\<close> writes the same six routes out by hand for the aircraft document, with
  the id-field \<open>aircraftid\<close> fixed.
\<close>

definition getNextAircraftId :: "collection \<Rightarrow> string \<Rightarrow> jsnum" where
  "getNextAircraftId aircraft nation =
     (let nationAircraft = nation_items aircraft nation
      in if length nationAircraft = 0 then Fin 1
         else num_add
                (Math_max (map (\<lambda>a. toNumber (js_or (get a ''id'') (JNum (Fin 0)))) nationAircraft))
                1)"

definition validateAircraftData :: "obj \<Rightarrow> bool \<Rightarrow> string list" where
  "validateAircraftData data isUpdate =
     (let rank = get data ''rank'';
          br = get data ''br'';
          crew = get data ''crew''
      in (if \<not> isUpdate \<and> not_filled (get data ''aircraftid'')
          then [''aircraftid is required and must be a non-empty string''] else [])
       @ (if \<not> isUpdate \<and> not_filled (get data ''name'')
          then [''name is required and must be a non-empty string''] else [])
       @ (if rank \<noteq> JUndef \<and>
             (\<not> is_number rank \<or> num_lt (toNumber rank) (Fin 1) \<or> num_lt (Fin 8) (toNumber rank))
          then [''rank must be a number between 1 and 8''] else [])
       @ (if br \<noteq> JUndef \<and>
             (\<not> is_number br \<or> num_lt (toNumber br) (Fin 1) \<or> num_lt (Fin 15) (toNumber br))
          then [''br (battle rating) must be a number between 1.0 and 15.0''] else [])
       @ (if crew \<noteq> JUndef \<and> (\<not> is_number crew \<or> num_lt (toNumber crew) (Fin 1))
          then [''crew must be a positive number''] else []))"

text \<open>
  \<open>v?.toLowerCase().includes(query)\<close>: \<open>undefined\<close> for a missing or \<open>null\<close> field, a
  \<open>TypeError\<close> (\<open>None\<close>) for any other value that is not a string.
\<close>

fun opt_field_has :: "jsval \<Rightarrow> string \<Rightarrow> bool option" where
  "opt_field_has JUndef query = Some False"
| "opt_field_has JNull query = Some False"
| "opt_field_has (JStr s) query = Some (str_includes (toLowerCase s) query)"
| "opt_field_has v query = None"

definition aircraft_has :: "string \<Rightarrow> obj \<Rightarrow> bool option" where
  "aircraft_has query a =
     (case opt_field_has (get a ''name'') query of
        None \<Rightarrow> None
      | Some True \<Rightarrow> Some True
      | Some False \<Rightarrow>
          (case opt_field_has (get a ''aircraftid'') query of
             None \<Rightarrow> None
           | Some True \<Rightarrow> Some True
           | Some False \<Rightarrow> opt_field_has (get a ''nation'') query))"

text \<open>
  The destructuring default \<open>{ aircraft = {} }\<close> replaces \<open>undefined\<close> only: with the
  document not loaded \<open>aircraft\<close> is \<open>null\<close> and \<open>Object.values\<close> throws.
\<close>

definition search_aircraft :: "string option \<Rightarrow> obj list \<Rightarrow> obj list option" where
  "search_aircraft q allAircraft =
     (case q of
        None \<Rightarrow> Some allAircraft
      | Some s \<Rightarrow>
          if s = [] then Some allAircraft
          else filter_items (aircraft_has (toLowerCase s)) allAircraft)"

definition aircraft_get_all ::
  "string option \<Rightarrow> string option \<Rightarrow> string option \<Rightarrow> collection option \<Rightarrow> response" where
  "aircraft_get_all q pageq limitq cache =
     (case cache of
        None \<Rightarrow> Thrown
      | Some aircraft \<Rightarrow>
          let allAircraft = concat (map snd aircraft)
          in (case search_aircraft q allAircraft of
                None \<Rightarrow> Thrown
              | Some items \<Rightarrow>
                  let page = page_of pageq;
                      limit = limit_of limitq;
                      startIndex = (page - 1) * limit;
                      endIndex = startIndex + limit
                  in Page (length items) page limit (totalPages (length items) limit)
                       (js_slice items startIndex endIndex)))"



text \<open>\<open>v.trim() === ''\<close>: only a string has \<open>trim\<close>, any other truthy value throws.\<close>

fun trim_is_empty :: "jsval \<Rightarrow> bool option" where
  "trim_is_empty (JStr s) = Some (trim s = [])"
| "trim_is_empty v = None"

definition aircraft_post ::
  "bool \<Rightarrow> string \<Rightarrow> obj \<Rightarrow> collection option \<Rightarrow> collection option \<times> response" where
  "aircraft_post saved nation body cache =
     (case cache of
        None \<Rightarrow> (None, Err 500 ''Aircraft data not loaded'' DNull)
      | Some aircraft0 \<Rightarrow>
          let aircraft =
                (if map_of aircraft0 nation = None then set_prop nation [] aircraft0
                 else aircraft0);
              aircraftid = get body ''aircraftid'';
              name = get body ''name''
          in if \<not> truthy aircraftid \<or> \<not> truthy name then
               (Some aircraft,
                Err 400 ''Missing required fields''
                  (DStr (''Both '' @ quoted ''aircraftid'' @ '' and '' @ quoted ''name''
                         @ '' are required'')))
             else
               (case (case trim_is_empty aircraftid of
                        None \<Rightarrow> None
                      | Some True \<Rightarrow> Some True
                      | Some False \<Rightarrow> trim_is_empty name) of
                  None \<Rightarrow> (Some aircraft, Thrown)
                | Some True \<Rightarrow>
                    (Some aircraft,
                     Err 400 ''Missing required fields''
                       (DStr (''Both '' @ quoted ''aircraftid'' @ '' and '' @ quoted ''name''
                              @ '' must be non-empty'')))
                | Some False \<Rightarrow>
                    if List.find (\<lambda>a. strict_eq (get a ''aircraftid'') aircraftid)
                         (nation_items aircraft nation) \<noteq> None then
                      (Some aircraft,
                       Err 409 ''Aircraft already exists''
                         (DStr (''An aircraft with aircraftid ''
                                @ quoted (case aircraftid of JStr s \<Rightarrow> s | _ \<Rightarrow> [])
                                @ '' already exists in '' @ nation)))
                    else
                      let newAircraft =
                            assign [(''id'', JNum (getNextAircraftId aircraft nation)),
                                    (''aircraftid'', aircraftid),
                                    (''name'', name),
                                    (''nation'', JStr nation)] body;
                          pushed =
                            set_prop nation (nation_items aircraft nation @ [newAircraft]) aircraft
                      in if \<not> saved then
                           (Some pushed, Err 500 ''Failed to save aircraft'' DNull)
                         else (Some pushed, Item 201 newAircraft)))"

definition aircraft_patch ::
  "bool \<Rightarrow> string \<Rightarrow> string \<Rightarrow> obj \<Rightarrow> collection option \<Rightarrow> collection option \<times> response" where
  "aircraft_patch saved nation identifier body cache =
     (case cache of
        None \<Rightarrow> (None, Err 404 (''Nation not found: '' @ nation) DNull)
      | Some aircraft \<Rightarrow>
          (case map_of aircraft nation of
             None \<Rightarrow> (Some aircraft, Err 404 (''Nation not found: '' @ nation) DNull)
           | Some nationAircraft \<Rightarrow>
               let validationErrors = validateAircraftData body True
               in if validationErrors \<noteq> [] then
                    (Some aircraft, Err 400 ''Validation failed'' (DErrors validationErrors))
                  else
                    (case findIndex (matches ''aircraftid'' identifier) nationAircraft of
                       None \<Rightarrow>
                         (Some aircraft,
                          Err 404 (''Aircraft not found with identifier: '' @ identifier) DNull)
                     | Some aircraftIndex \<Rightarrow>
                         let originalAircraft = assign [] (nationAircraft ! aircraftIndex);
                             updatedAircraft =
                               merged ''aircraftid'' (nationAircraft ! aircraftIndex) body;
                             written = nationAircraft[aircraftIndex := updatedAircraft];
                             stored = set_prop nation written aircraft
                         in if \<not> saved then
                              (Some (set_prop nation
                                       (written[aircraftIndex := originalAircraft]) stored),
                               Err 500 ''Failed to update aircraft'' DNull)
                            else (Some stored, Item 200 updatedAircraft))))"

definition aircraft_delete ::
  "bool \<Rightarrow> string \<Rightarrow> string \<Rightarrow> collection option \<Rightarrow> collection option \<times> response" where
  "aircraft_delete saved nation identifier cache =
     (case cache of
        None \<Rightarrow> (None, Err 404 (''Nation not found: '' @ nation) DNull)
      | Some aircraft \<Rightarrow>
          (case map_of aircraft nation of
             None \<Rightarrow> (Some aircraft, Err 404 (''Nation not found: '' @ nation) DNull)
           | Some nationAircraft \<Rightarrow>
               (case findIndex (matches ''aircraftid'' identifier) nationAircraft of
                  None \<Rightarrow>
                    (Some aircraft,
                     Err 404 (''Aircraft not found with identifier: '' @ identifier) DNull)
                | Some aircraftIndex \<Rightarrow>
                    let deletedAircraft = nationAircraft ! aircraftIndex;
                        spliced =
                          take aircraftIndex nationAircraft @ drop (Suc aircraftIndex) nationAircraft;
                        stored = set_prop nation spliced aircraft
                    in if \<not> saved then
                         (Some (set_prop nation
                                  (take aircraftIndex spliced @ [deletedAircraft]
                                   @ drop aircraftIndex spliced) stored),
                          Err 500 ''Failed to delete aircraft'' DNull)
                       else (Some stored, NoContent))))"

section \<open>The identifier resolver as the specification words it\<close>




section \<open>Range rules as the specification words them\<close>

text \<open>
  An optional numeric field violates its rule when it is present and is not a number, or
  lies below the lower bound, or above the upper bound when there is one: rank within
  1..8, br within 1.0..15.0, crew at least 1.
\<close>

definition spec_violation :: "rat \<Rightarrow> rat option \<Rightarrow> jsval \<Rightarrow> bool" where
  "spec_violation lo hi v =
     (case v of
        JUndef \<Rightarrow> False
      | JNum n \<Rightarrow> num_lt n (Fin lo) \<or> (case hi of None \<Rightarrow> False | Some h \<Rightarrow> num_lt (Fin h) n)
      | _ \<Rightarrow> True)"

section \<open>Auxiliary facts\<close>

subsection \<open>Objects, lists and the collection\<close>

lemma map_of_set_prop: "map_of (set_prop k v c) = (map_of c)(k \<mapsto> v)"
  by (induction c) (auto simp: fun_eq_iff)

lemma set_prop_twice: "set_prop k v (set_prop k w c) = set_prop k v c"
  by (induction c) auto

lemma set_prop_same: "map_of c k = Some v \<Longrightarrow> set_prop k v c = c"
  by (induction c) (auto split: if_splits)

lemma nation_items_set_prop:
  "nation_items (set_prop k v c) n = (if n = k then v else nation_items c n)"
  by (simp add: nation_items_def map_of_set_prop)

lemma nation_items_absent: "map_of c n = None \<Longrightarrow> nation_items c n = []"
  by (simp add: nation_items_def)

lemma nation_items_present: "map_of c n = Some xs \<Longrightarrow> nation_items c n = xs"
  by (simp add: nation_items_def)

lemma get_set_prop: "get (set_prop k v ob) k' = (if k' = k then v else get ob k')"
  by (simp add: get_def map_of_set_prop)

lemma map_of_assign_other: "k \<notin> fst ` set src \<Longrightarrow> map_of (assign tgt src) k = map_of tgt k"
  by (induction tgt src rule: assign.induct) (auto simp: map_of_set_prop)

lemma map_of_assign_in:
  "distinct (map fst src) \<Longrightarrow> map_of src k = Some v \<Longrightarrow> map_of (assign tgt src) k = Some v"
proof (induction tgt src rule: assign.induct)
  case (1 target)
  then show ?case by simp
next
  case (2 target k' v' rest)
  show ?case
  proof (cases "k = k'")
    case True
    with 2 have "k \<notin> fst ` set rest" and "v' = v" by auto
    then show ?thesis
      using True by (simp add: map_of_assign_other map_of_set_prop)
  next
    case False
    with 2 show ?thesis by simp
  qed
qed

lemma get_assign:
  "distinct (map fst src) \<Longrightarrow>
   get (assign tgt src) k = (if k \<in> fst ` set src then get src k else get tgt k)"
proof (cases "map_of src k")
  case None
  assume "distinct (map fst src)"
  from None have "k \<notin> fst ` set src" by (simp add: map_of_eq_None_iff)
  then show ?thesis by (simp add: get_def map_of_assign_other)
next
  case (Some v)
  assume d: "distinct (map fst src)"
  from Some have "k \<in> fst ` set src" by (metis map_of_eq_None_iff option.distinct(1))
  then show ?thesis using Some d by (simp add: get_def map_of_assign_in)
qed

lemma set_prop_fresh: "k \<notin> fst ` set c \<Longrightarrow> set_prop k v c = c @ [(k, v)]"
  by (induction c) auto

lemma assign_append: "distinct (map fst (tgt @ src)) \<Longrightarrow> assign tgt src = tgt @ src"
proof (induction tgt src rule: assign.induct)
  case (1 target)
  then show ?case by simp
next
  case (2 target k v rest)
  then have "k \<notin> fst ` set target" by auto
  then have s: "set_prop k v target = target @ [(k, v)]" by (rule set_prop_fresh)
  from 2 have "distinct (map fst ((target @ [(k, v)]) @ rest))" by auto
  with 2 s show ?case by simp
qed

lemma assign_copy: "wf_obj ob \<Longrightarrow> assign [] ob = ob"
  using assign_append [of "[]" ob] by (simp add: wf_obj_def)

lemma findIndex_Some:
  "findIndex p xs = Some i \<Longrightarrow> i < length xs \<and> p (xs ! i) \<and> (\<forall>j<i. \<not> p (xs ! j))"
proof (induction xs arbitrary: i)
  case Nil
  then show ?case by simp
next
  case (Cons x xs)
  show ?case
  proof (cases "p x")
    case True
    with Cons.prems show ?thesis by simp
  next
    case False
    with Cons.prems obtain i' where i': "findIndex p xs = Some i'" "i = Suc i'" by auto
    from Cons.IH [OF i'(1)] False i'(2) show ?thesis
      by (auto simp: nth_Cons split: nat.splits)
  qed
qed

lemma findIndex_None: "findIndex p xs = None \<longleftrightarrow> (\<forall>x\<in>set xs. \<not> p x)"
  by (induction xs) auto

lemma find_findIndex: "List.find p xs = map_option (\<lambda>i. xs ! i) (findIndex p xs)"
  by (induction xs) (auto simp: option.map_comp comp_def)

lemma splice_back:
  "i < length xs \<Longrightarrow>
   take i (take i xs @ drop (Suc i) xs) @ [xs ! i] @ drop i (take i xs @ drop (Suc i) xs) = xs"
  by (simp add: min_def Cons_nth_drop_Suc)

subsection \<open>Creating a record\<close>

lemma find_None_set: "List.find p xs = None \<longleftrightarrow> (\<forall>x\<in>set xs. \<not> p x)"
  by (induction xs) auto

lemma getNextId_init:
  "map_of c nation = None \<Longrightarrow>
   getNextIdForCategory (Some (set_prop nation [] c)) nation = getNextIdForCategory (Some c) nation"
  by (simp add: getNextIdForCategory_def nation_items_set_prop nation_items_absent)

text \<open>What an acceptable create does (the required fields are filled and no record of the nation has the id-field value).\<close>

lemma post_create_fresh:
  assumes "\<not> not_filled (get body (idFieldForCategory category))"
    and "\<not> not_filled (get body ''name'')"
    and "\<forall>r\<in>set (nation_items c nation).
           \<not> strict_eq (get r (idFieldForCategory category)) (get body (idFieldForCategory category))"
  shows "post_create category saved nation body (Some c) =
     (let newItem = assign [(''id'', JNum (getNextIdForCategory (Some c) nation)),
                            (''nation'', JStr nation)] body
      in if saved then
           (Some (set_prop nation (nation_items c nation @ [newItem]) c), Item 201 newItem)
         else
           (Some (if map_of c nation = None then set_prop nation [] c else c),
            Err 500 (''Failed to save '' @ category_name category) DNull))"
proof (cases "map_of c nation")
  case None
  then show ?thesis
    using assms
    by (simp add: post_create_def Let_def nation_items_set_prop nation_items_absent
        set_prop_twice getNextId_init find_None_set)
next
  case (Some xs)
  then have "set_prop nation xs c = c" by (rule set_prop_same)
  then show ?thesis
    using assms Some
    by (simp add: post_create_def Let_def nation_items_set_prop nation_items_present
        set_prop_twice find_None_set)
qed






lemma strict_eq_filled: "\<not> not_filled v \<Longrightarrow> strict_eq w v \<longleftrightarrow> w = v"
  by (cases v; cases w) (auto simp: not_filled_def)

subsection \<open>Uniqueness of the id-field within a nation\<close>



subsection \<open>The next numeric id\<close>






subsection \<open>Pagination of the flattened listing\<close>

lemma limit_of_bounds: "1 \<le> limit_of q \<and> limit_of q \<le> 100"
  by (simp add: limit_of_def)

lemma page_of_floor: "1 \<le> page_of q"
  by (simp add: page_of_def)

lemma js_slice_nonneg:
  assumes "0 \<le> a" "0 \<le> l"
  shows "js_slice xs a (a + l) = take (nat l) (drop (nat a) xs)"
proof (cases "a \<le> int (length xs)")
  case True
  then have "nat (min (a + l) (int (length xs)) - a) = min (nat l) (length (drop (nat a) xs))"
    using assms by (simp add: min_def) linarith
  moreover have "take (min (nat l) (length (drop (nat a) xs))) (drop (nat a) xs) =
      take (nat l) (drop (nat a) xs)"
    by (simp add: min_def)
  ultimately show ?thesis
    using assms True by (simp add: js_slice_def Let_def)
next
  case False
  then show ?thesis
    using assms by (simp add: js_slice_def Let_def min_def)
qed

lemma paginate_take_drop:
  assumes "1 \<le> page" "1 \<le> limit"
  shows "paginate xs page limit = take (nat limit) (drop (nat (page - 1) * nat limit) xs)"
proof -
  have "0 \<le> (page - 1) * limit" using assms by simp
  moreover have "nat ((page - 1) * limit) = nat (page - 1) * nat limit"
    using assms by (simp add: nat_mult_distrib)
  ultimately show ?thesis
    using assms js_slice_nonneg [of "(page - 1) * limit" limit xs]
    by (simp add: paginate_def Let_def)
qed

lemma concat_pages: "concat (map (\<lambda>p. take l (drop (p * l) xs)) [0..<n]) = take (n * l) xs"
proof (induction n)
  case 0
  then show ?case by simp
next
  case (Suc n)
  have "take (n * l) xs @ take l (drop (n * l) xs) = take (n * l + l) xs"
    by (simp add: take_add)
  with Suc show ?case by (simp add: add.commute)
qed

lemma totalPages_covers:
  assumes "1 \<le> limit"
  shows "0 \<le> totalPages n limit \<and> n \<le> nat (totalPages n limit) * nat limit"
proof -
  have pos: "(0::rat) < of_int limit" using assms by simp
  have "(of_nat n :: rat) / of_int limit \<le> of_int (totalPages n limit)"
    by (simp add: totalPages_def)
  then have "(of_nat n :: rat) \<le> of_int (totalPages n limit) * of_int limit"
    using pos by (simp add: pos_divide_le_eq)
  then have "(of_int (int n) :: rat) \<le> of_int (totalPages n limit * limit)"
    by simp
  then have le: "int n \<le> totalPages n limit * limit"
    by (simp only: of_int_le_iff)
  have "(0::rat) \<le> of_nat n / of_int limit"
    using pos by simp
  then have nonneg: "0 \<le> totalPages n limit"
    by (simp add: totalPages_def)
  from le nonneg assms have "n \<le> nat (totalPages n limit * limit)" by linarith
  then show ?thesis using nonneg assms by (simp add: nat_mult_distrib)
qed


lemma pages_concat:
  assumes "1 \<le> limit"
    and "map page_of pqs = map int [1..<Suc (nat (totalPages (length items) limit))]"
  shows "concat (map (\<lambda>pq. paginate items (page_of pq) limit) pqs) = items"
proof -
  let ?N = "nat (totalPages (length items) limit)"
  have step: "\<And>k. paginate items (1 + int k) limit = take (nat limit) (drop (k * nat limit) items)"
    using assms(1) by (simp add: paginate_take_drop)
  have "map (\<lambda>pq. paginate items (page_of pq) limit) pqs =
        map (\<lambda>p. paginate items p limit) (map page_of pqs)"
    by (simp add: comp_def)
  also have "\<dots> = map (\<lambda>p. paginate items p limit) (map int (map Suc [0..<?N]))"
    by (simp only: assms(2) map_Suc_upt One_nat_def)
  also have "\<dots> = map (\<lambda>k. take (nat limit) (drop (k * nat limit) items)) [0..<?N]"
    by (simp add: comp_def step del: upt_Suc)
  finally have "concat (map (\<lambda>pq. paginate items (page_of pq) limit) pqs) =
      take (?N * nat limit) items"
    by (simp only: concat_pages)
  then show ?thesis
    using totalPages_covers [OF assms(1), of "length items"] by simp
qed

lemma paginate_length: "1 \<le> page \<Longrightarrow> 1 \<le> limit \<Longrightarrow> length (paginate xs page limit) \<le> nat limit"
  by (simp add: paginate_take_drop)


lemma get_all_page:
  assumes "search_items category q (concat (map snd (case cache of None \<Rightarrow> [] | Some c \<Rightarrow> c))) = Some items"
  shows "get_all category q pageq limitq cache =
     Page (length items) (page_of pageq) (limit_of limitq)
       (totalPages (length items) (limit_of limitq))
       (paginate items (page_of pageq) (limit_of limitq))"
  using assms by (simp add: get_all_def Let_def)

lemma aircraft_get_all_page:
  assumes "search_aircraft q (concat (map snd aircraft)) = Some items"
  shows "aircraft_get_all q pageq limitq (Some aircraft) =
     Page (length items) (page_of pageq) (limit_of limitq)
       (totalPages (length items) (limit_of limitq))
       (paginate items (page_of pageq) (limit_of limitq))"
  using assms by (simp add: aircraft_get_all_def Let_def paginate_def)

subsection \<open>Updating a record\<close>

lemma idField_not_key: "idFieldForCategory category \<noteq> ''id'' \<and> idFieldForCategory category \<noteq> ''nation''"
  by (cases category) simp_all

lemma merged_keeps_keys:
  assumes "idField \<noteq> ''id''" "idField \<noteq> ''nation''"
  shows "get (merged idField item body) ''id'' = get item ''id''
       \<and> get (merged idField item body) ''nation'' = get item ''nation''
       \<and> get (merged idField item body) idField = get item idField"
  using assms by (simp add: merged_def get_set_prop)

lemma merged_other_fields:
  assumes "wf_obj body" "wf_obj item" "k \<noteq> ''id''" "k \<noteq> ''nation''" "k \<noteq> idField"
  shows "get (merged idField item body) k = (if k \<in> fst ` set body then get body k else get item k)"
  using assms by (simp add: merged_def get_set_prop get_assign assign_copy wf_obj_def)

lemma validateAircraftData_generic: "validateAircraftData data isUpdate = validateGenericData Aircraft data isUpdate"
  by (simp add: validateAircraftData_def validateGenericData_def)

lemma patch_update_found:
  assumes "map_of c nation = Some items"
    and "validateGenericData category body True = []"
    and "findIndex (matches (idFieldForCategory category) identifier) items = Some index"
  shows "patch_update category saved nation identifier body (Some c) =
     (if saved then
        (Some (set_prop nation (items[index := merged (idFieldForCategory category) (items ! index) body]) c),
         Item 200 (merged (idFieldForCategory category) (items ! index) body))
      else
        (Some (set_prop nation (items[index := assign [] (items ! index)]) c),
         Err 500 (''Failed to update '' @ singular category) DNull))"
  using assms by (simp add: patch_update_def Let_def set_prop_twice)

lemma aircraft_patch_found:
  assumes "map_of c nation = Some items"
    and "validateAircraftData body True = []"
    and "findIndex (matches ''aircraftid'' identifier) items = Some index"
  shows "aircraft_patch saved nation identifier body (Some c) =
     (if saved then
        (Some (set_prop nation (items[index := merged ''aircraftid'' (items ! index) body]) c),
         Item 200 (merged ''aircraftid'' (items ! index) body))
      else
        (Some (set_prop nation (items[index := assign [] (items ! index)]) c),
         Err 500 ''Failed to update aircraft'' DNull))"
  using assms by (simp add: aircraft_patch_def Let_def set_prop_twice)

subsection \<open>Resolving an identifier\<close>






















subsection \<open>Validation of the optional fields\<close>

lemma rule_violated:
  "(v \<noteq> JUndef \<and> (\<not> is_number v \<or> num_lt (toNumber v) (Fin lo) \<or> num_lt (Fin hi) (toNumber v)))
     = spec_violation lo (Some hi) v"
  "(v \<noteq> JUndef \<and> (\<not> is_number v \<or> num_lt (toNumber v) (Fin lo))) = spec_violation lo None v"
  by (cases v; simp add: spec_violation_def)+

lemma update_errors:
  "validateGenericData category body True =
     (if spec_violation 1 (Some 8) (get body ''rank'')
      then [''rank must be a number between 1 and 8''] else [])
   @ (if spec_violation 1 (Some 15) (get body ''br'')
      then [''br (battle rating) must be a number between 1.0 and 15.0''] else [])
   @ (if spec_violation 1 None (get body ''crew'')
      then [''crew must be a positive number''] else [])"
  by (simp only: validateGenericData_def Let_def rule_violated) simp

lemma update_errors_nonempty:
  "validateGenericData category body True \<noteq> [] \<longleftrightarrow>
     spec_violation 1 (Some 8) (get body ''rank'')
   \<or> spec_violation 1 (Some 15) (get body ''br'')
   \<or> spec_violation 1 None (get body ''crew'')"
  by (simp add: update_errors)

lemma update_errors_complete:
  "(''rank must be a number between 1 and 8'' \<in> set (validateGenericData category body True)
      \<longleftrightarrow> spec_violation 1 (Some 8) (get body ''rank''))
   \<and> (''br (battle rating) must be a number between 1.0 and 15.0''
        \<in> set (validateGenericData category body True)
      \<longleftrightarrow> spec_violation 1 (Some 15) (get body ''br''))
   \<and> (''crew must be a positive number'' \<in> set (validateGenericData category body True)
      \<longleftrightarrow> spec_violation 1 None (get body ''crew''))"
  by (simp add: update_errors)

lemma patch_update_invalid:
  assumes "map_of c nation = Some items"
    and "validateGenericData category body True \<noteq> []"
  shows "patch_update category saved nation identifier body (Some c) =
     (Some c, Err 400 ''Validation failed'' (DErrors (validateGenericData category body True)))"
  using assms by (simp add: patch_update_def Let_def)

lemma aircraft_patch_invalid:
  assumes "map_of c nation = Some items"
    and "validateGenericData Aircraft body True \<noteq> []"
  shows "aircraft_patch saved nation identifier body (Some c) =
     (Some c, Err 400 ''Validation failed'' (DErrors (validateGenericData Aircraft body True)))"
  using assms by (simp add: aircraft_patch_def Let_def validateAircraftData_generic)

subsection \<open>Rollback after a failed write\<close>

text \<open>
  Where the rollback restores the collection: a create of the route factory into a nation
  that is already present, an update of a well-formed record, and every delete.
\<close>

lemma create_rolls_back_in_known_nation:
  assumes "map_of c nation = Some items"
    and "\<not> not_filled (get body (idFieldForCategory category))"
    and "\<not> not_filled (get body ''name'')"
    and "\<forall>r\<in>set items.
           \<not> strict_eq (get r (idFieldForCategory category)) (get body (idFieldForCategory category))"
  shows "post_create category False nation body (Some c) =
           (Some c, Err 500 (''Failed to save '' @ category_name category) DNull)"
  using assms post_create_fresh [of body category c nation False]
  by (simp add: nation_items_present)

lemma update_rolls_back:
  assumes "map_of c nation = Some items"
    and "validateGenericData category body True = []"
    and "findIndex (matches (idFieldForCategory category) ident) items = Some index"
    and "wf_obj (items ! index)"
  shows "patch_update category False nation ident body (Some c) =
           (Some c, Err 500 (''Failed to update '' @ singular category) DNull)"
    and "category = Aircraft \<Longrightarrow> aircraft_patch False nation ident body (Some c) =
           (Some c, Err 500 ''Failed to update aircraft'' DNull)"
proof -
  have same: "set_prop nation (items[index := assign [] (items ! index)]) c = c"
    using assms(1,4) by (simp add: assign_copy set_prop_same)
  show "patch_update category False nation ident body (Some c) =
           (Some c, Err 500 (''Failed to update '' @ singular category) DNull)"
    using patch_update_found [OF assms(1,2,3), of False] same by simp
  assume "category = Aircraft"
  then show "aircraft_patch False nation ident body (Some c) =
           (Some c, Err 500 ''Failed to update aircraft'' DNull)"
    using aircraft_patch_found [OF assms(1), where saved = False and body = body and index = index]
      assms(2,3) same
    by (simp add: validateAircraftData_generic)
qed

lemma reinserted: "i < length xs \<Longrightarrow> take i xs @ xs ! i # drop (Suc i) xs = xs"
  by (simp add: id_take_nth_drop [symmetric])

lemma delete_rolls_back:
  "fst (delete_remove category False nation ident cache) = cache"
  "fst (aircraft_delete False nation ident cache) = cache"
  by (auto simp: delete_remove_def aircraft_delete_def Let_def set_prop_twice set_prop_same
      splice_back reinserted dest!: findIndex_Some split: option.splits)

subsection \<open>The key fields of a created record\<close>

text \<open>A body that has no \<open>id\<close> and no \<open>nation\<close> gets both from the server.\<close>

lemma create_assigns_keys_when_body_has_none:
  assumes "\<not> not_filled (get body (idFieldForCategory category))"
    and "\<not> not_filled (get body ''name'')"
    and "\<forall>r\<in>set (nation_items c nation).
           \<not> strict_eq (get r (idFieldForCategory category)) (get body (idFieldForCategory category))"
    and "''id'' \<notin> fst ` set body"
    and "''nation'' \<notin> fst ` set body"
  shows "\<exists>c' item. post_create category True nation body (Some c) = (c', Item 201 item)
           \<and> get item ''nation'' = JStr nation
           \<and> get item ''id'' = JNum (getNextIdForCategory (Some c) nation)"
  using post_create_fresh [OF assms(1,2,3), of True] assms(4,5)
  by (simp add: Let_def get_def map_of_assign_other)

section \<open>Properties\<close>

subsection \<open>Rollback after a failed write\<close>

text \<open>
  C1 asks that the collection after a failed write equal the collection before the call,
  for create as for update and delete. The create route of \<open>server.js\<close> has no rollback:
  with the write failing it answers 500 and the appended record stays in the collection.
  The create of the route factory does pop the record, but leaves behind the nation key
  it initialised.
\<close>

theorem failed_aircraft_create_keeps_record:
  "aircraft_post False ''usa'' [(''aircraftid'', JStr ''f-22''), (''name'', JStr ''F-22'')]
     (Some [(''usa'', [])]) =
     (Some [(''usa'', [[(''id'', JNum (Fin 1)), (''aircraftid'', JStr ''f-22''),
                        (''name'', JStr ''F-22''), (''nation'', JStr ''usa'')]])],
      Err 500 ''Failed to save aircraft'' DNull)
   \<and> fst (aircraft_post False ''usa'' [(''aircraftid'', JStr ''f-22''), (''name'', JStr ''F-22'')]
           (Some [(''usa'', [])])) \<noteq> Some [(''usa'', [])]
   \<and> fst (post_create Aircraft False ''ussr''
           [(''aircraftid'', JStr ''mig-15''), (''name'', JStr ''MiG-15'')] (Some [(''usa'', [])]))
       \<noteq> Some [(''usa'', [])]"
  by code_simp

theorem failed_aircraft_create_keeps_record_witness:
  "fst (aircraft_post False ''usa'' [(''aircraftid'', JStr ''f-22''), (''name'', JStr ''F-22'')]
          (Some [(''usa'', [])])) =
     Some [(''usa'', [[(''id'', JNum (Fin 1)), (''aircraftid'', JStr ''f-22''),
                       (''name'', JStr ''F-22''), (''nation'', JStr ''usa'')]])]
   \<and> snd (aircraft_post False ''usa'' [(''aircraftid'', JStr ''f-22''), (''name'', JStr ''F-22'')]
          (Some [(''usa'', [])])) = Err 500 ''Failed to save aircraft'' DNull"
  using failed_aircraft_create_keeps_record [THEN conjunct1] by simp

subsection \<open>The key fields of a created record\<close>

text \<open>
  C2 asks that the created record carry the nation of the path and the computed id
  whatever the body holds. Both create routes spread the body after these two fields:
  with \<open>id\<close> 999 and \<open>nation\<close> \<open>germany\<close> in the body of a create for \<open>usa\<close>, whose
  computed id is 1, the stored and returned record has \<open>id\<close> 999 and \<open>nation\<close> \<open>germany\<close>.
\<close>

theorem create_body_overrides_id_and_nation:
  "getNextIdForCategory (Some [(''usa'', [])]) ''usa'' = Fin 1
   \<and> post_create Aircraft True ''usa''
       [(''aircraftid'', JStr ''f-22''), (''name'', JStr ''F-22''), (''id'', JNum (Fin 999)),
        (''nation'', JStr ''germany'')] (Some [(''usa'', [])]) =
       (Some [(''usa'', [[(''id'', JNum (Fin 999)), (''nation'', JStr ''germany''),
                          (''aircraftid'', JStr ''f-22''), (''name'', JStr ''F-22'')]])],
        Item 201 [(''id'', JNum (Fin 999)), (''nation'', JStr ''germany''),
                  (''aircraftid'', JStr ''f-22''), (''name'', JStr ''F-22'')])
   \<and> aircraft_post True ''usa''
       [(''aircraftid'', JStr ''f-22''), (''name'', JStr ''F-22''), (''id'', JNum (Fin 999)),
        (''nation'', JStr ''germany'')] (Some [(''usa'', [])]) =
       (Some [(''usa'', [[(''id'', JNum (Fin 999)), (''aircraftid'', JStr ''f-22''),
                          (''name'', JStr ''F-22''), (''nation'', JStr ''germany'')]])],
        Item 201 [(''id'', JNum (Fin 999)), (''aircraftid'', JStr ''f-22''),
                  (''name'', JStr ''F-22''), (''nation'', JStr ''germany'')])"
  by code_simp

theorem create_body_overrides_id_and_nation_witness:
  "snd (post_create Aircraft True ''usa''
       [(''aircraftid'', JStr ''f-22''), (''name'', JStr ''F-22''), (''id'', JNum (Fin 999)),
        (''nation'', JStr ''germany'')] (Some [(''usa'', [])])) =
     Item 201 [(''id'', JNum (Fin 999)), (''nation'', JStr ''germany''),
               (''aircraftid'', JStr ''f-22''), (''name'', JStr ''F-22'')]"
  using create_body_overrides_id_and_nation [THEN conjunct2, THEN conjunct1] by simp

subsection \<open>Resolving an identifier\<close>




subsection \<open>Updating a record\<close>

text \<open>
  C4. An update that passes validation and resolves to the record at \<open>index\<close> of the
  nation's list, with the write succeeding, answers 200 with the merged record and stores
  it at that index. Its \<open>id\<close>, \<open>nation\<close> and id-field are those of the record before the
  update, whatever the body holds for them; every other field is the body's when the body
  has it and the old record's otherwise. The aircraft route of \<open>server.js\<close> does the same.
\<close>

theorem patch_preserves_key_fields:
  assumes "map_of c nation = Some items"
    and "validateGenericData category body True = []"
    and "findIndex (matches (idFieldForCategory category) identifier) items = Some index"
    and "wf_obj body"
    and "wf_obj (items ! index)"
  shows "(\<exists>c' updated.
            patch_update category True nation identifier body (Some c) = (Some c', Item 200 updated)
          \<and> nation_items c' nation = items[index := updated]
          \<and> get updated ''id'' = get (items ! index) ''id''
          \<and> get updated ''nation'' = get (items ! index) ''nation''
          \<and> get updated (idFieldForCategory category) = get (items ! index) (idFieldForCategory category)
          \<and> (\<forall>k. k \<noteq> ''id'' \<and> k \<noteq> ''nation'' \<and> k \<noteq> idFieldForCategory category \<longrightarrow>
                get updated k = (if k \<in> fst ` set body then get body k else get (items ! index) k)))
       \<and> (category = Aircraft \<longrightarrow>
           (\<exists>c' updated.
            aircraft_patch True nation identifier body (Some c) = (Some c', Item 200 updated)
          \<and> nation_items c' nation = items[index := updated]
          \<and> get updated ''id'' = get (items ! index) ''id''
          \<and> get updated ''nation'' = get (items ! index) ''nation''
          \<and> get updated ''aircraftid'' = get (items ! index) ''aircraftid''
          \<and> (\<forall>k. k \<noteq> ''id'' \<and> k \<noteq> ''nation'' \<and> k \<noteq> ''aircraftid'' \<longrightarrow>
                get updated k = (if k \<in> fst ` set body then get body k else get (items ! index) k))))"
proof (rule conjI)
  let ?f = "idFieldForCategory category"
  let ?u = "merged ?f (items ! index) body"
  have p: "patch_update category True nation identifier body (Some c) =
      (Some (set_prop nation (items[index := ?u]) c), Item 200 ?u)"
    using patch_update_found [OF assms(1,2,3), of True] by simp
  have n: "nation_items (set_prop nation (items[index := ?u]) c) nation = items[index := ?u]"
    by (simp add: nation_items_set_prop)
  have k: "get ?u ''id'' = get (items ! index) ''id''
       \<and> get ?u ''nation'' = get (items ! index) ''nation''
       \<and> get ?u ?f = get (items ! index) ?f"
    using idField_not_key [of category] by (simp add: merged_keeps_keys)
  have o: "\<forall>k. k \<noteq> ''id'' \<and> k \<noteq> ''nation'' \<and> k \<noteq> ?f \<longrightarrow>
                get ?u k = (if k \<in> fst ` set body then get body k else get (items ! index) k)"
    using merged_other_fields [OF assms(4,5)] by blast
  show "\<exists>c' updated.
            patch_update category True nation identifier body (Some c) = (Some c', Item 200 updated)
          \<and> nation_items c' nation = items[index := updated]
          \<and> get updated ''id'' = get (items ! index) ''id''
          \<and> get updated ''nation'' = get (items ! index) ''nation''
          \<and> get updated ?f = get (items ! index) ?f
          \<and> (\<forall>k. k \<noteq> ''id'' \<and> k \<noteq> ''nation'' \<and> k \<noteq> ?f \<longrightarrow>
                get updated k = (if k \<in> fst ` set body then get body k else get (items ! index) k))"
    using p n k o by blast
next
  let ?u = "merged ''aircraftid'' (items ! index) body"
  show "category = Aircraft \<longrightarrow>
           (\<exists>c' updated.
            aircraft_patch True nation identifier body (Some c) = (Some c', Item 200 updated)
          \<and> nation_items c' nation = items[index := updated]
          \<and> get updated ''id'' = get (items ! index) ''id''
          \<and> get updated ''nation'' = get (items ! index) ''nation''
          \<and> get updated ''aircraftid'' = get (items ! index) ''aircraftid''
          \<and> (\<forall>k. k \<noteq> ''id'' \<and> k \<noteq> ''nation'' \<and> k \<noteq> ''aircraftid'' \<longrightarrow>
                get updated k = (if k \<in> fst ` set body then get body k else get (items ! index) k)))"
  proof
    assume a: "category = Aircraft"
    have p: "aircraft_patch True nation identifier body (Some c) =
        (Some (set_prop nation (items[index := ?u]) c), Item 200 ?u)"
      using aircraft_patch_found [OF assms(1), where saved = True and body = body and index = index] assms(2,3) a
      by (simp add: validateAircraftData_generic)
    have n: "nation_items (set_prop nation (items[index := ?u]) c) nation = items[index := ?u]"
      by (simp add: nation_items_set_prop)
    have k: "get ?u ''id'' = get (items ! index) ''id''
       \<and> get ?u ''nation'' = get (items ! index) ''nation''
       \<and> get ?u ''aircraftid'' = get (items ! index) ''aircraftid''"
      by (simp add: merged_keeps_keys)
    have o: "\<forall>k. k \<noteq> ''id'' \<and> k \<noteq> ''nation'' \<and> k \<noteq> ''aircraftid'' \<longrightarrow>
                get ?u k = (if k \<in> fst ` set body then get body k else get (items ! index) k)"
      using merged_other_fields [OF assms(4,5)] by blast
    show "\<exists>c' updated.
            aircraft_patch True nation identifier body (Some c) = (Some c', Item 200 updated)
          \<and> nation_items c' nation = items[index := updated]
          \<and> get updated ''id'' = get (items ! index) ''id''
          \<and> get updated ''nation'' = get (items ! index) ''nation''
          \<and> get updated ''aircraftid'' = get (items ! index) ''aircraftid''
          \<and> (\<forall>k. k \<noteq> ''id'' \<and> k \<noteq> ''nation'' \<and> k \<noteq> ''aircraftid'' \<longrightarrow>
                get updated k = (if k \<in> fst ` set body then get body k else get (items ! index) k))"
      using p n k o by blast
  qed
qed


theorem patch_preserves_key_fields_witness:
  "map_of [(''usa'', [[(''id'', JNum (Fin 1)), (''aircraftid'', JStr ''f-22''), (''name'', JStr ''F-22''), (''nation'', JStr ''usa''), (''br'', JNum (Fin 13))]])] ''usa'' = Some [[(''id'', JNum (Fin 1)), (''aircraftid'', JStr ''f-22''), (''name'', JStr ''F-22''), (''nation'', JStr ''usa''), (''br'', JNum (Fin 13))]]
   \<and> validateGenericData Aircraft [(''br'', JNum (Fin (133 / 10))), (''id'', JNum (Fin 999)), (''nation'', JStr ''germany''), (''aircraftid'', JStr ''zzz'')] True = []
   \<and> findIndex (matches (idFieldForCategory Aircraft) ''f-22'') [[(''id'', JNum (Fin 1)), (''aircraftid'', JStr ''f-22''), (''name'', JStr ''F-22''), (''nation'', JStr ''usa''), (''br'', JNum (Fin 13))]] = Some 0
   \<and> wf_obj [(''br'', JNum (Fin (133 / 10))), (''id'', JNum (Fin 999)), (''nation'', JStr ''germany''), (''aircraftid'', JStr ''zzz'')]
   \<and> wf_obj ([[(''id'', JNum (Fin 1)), (''aircraftid'', JStr ''f-22''), (''name'', JStr ''F-22''), (''nation'', JStr ''usa''), (''br'', JNum (Fin 13))]] ! 0)
   \<and> (\<exists>c' updated.
        patch_update Aircraft True ''usa'' ''f-22'' [(''br'', JNum (Fin (133 / 10))), (''id'', JNum (Fin 999)), (''nation'', JStr ''germany''), (''aircraftid'', JStr ''zzz'')] (Some [(''usa'', [[(''id'', JNum (Fin 1)), (''aircraftid'', JStr ''f-22''), (''name'', JStr ''F-22''), (''nation'', JStr ''usa''), (''br'', JNum (Fin 13))]])]) =
          (Some c', Item 200 updated)
      \<and> get updated ''id'' = JNum (Fin 1)
      \<and> get updated ''nation'' = JStr ''usa''
      \<and> get updated ''aircraftid'' = JStr ''f-22''
      \<and> get updated ''br'' = JNum (Fin (133 / 10)))"
proof -
  let ?rec = "[(''id'', JNum (Fin 1)), (''aircraftid'', JStr ''f-22''), (''name'', JStr ''F-22''), (''nation'', JStr ''usa''), (''br'', JNum (Fin 13))]"
  let ?body = "[(''br'', JNum (Fin (133 / 10))), (''id'', JNum (Fin 999)), (''nation'', JStr ''germany''), (''aircraftid'', JStr ''zzz'')]"
  have h1: "map_of [(''usa'', [?rec])] ''usa'' = Some [?rec]" by simp
  have h2: "validateGenericData Aircraft ?body True = []"
    by code_simp
  have h3: "findIndex (matches (idFieldForCategory Aircraft) ''f-22'') [?rec] = Some 0"
    by code_simp
  have h4: "wf_obj ?body" by (simp add: wf_obj_def)
  have h5: "wf_obj ([?rec] ! 0)" by (simp add: wf_obj_def)
  have br: "''br'' \<noteq> ''id'' \<and> ''br'' \<noteq> ''nation'' \<and> ''br'' \<noteq> idFieldForCategory Aircraft" by simp
  let ?Q = "\<lambda>c' updated.
      patch_update Aircraft True ''usa'' ''f-22'' ?body (Some [(''usa'', [?rec])]) = (Some c', Item 200 updated)
    \<and> nation_items c' ''usa'' = [?rec][0 := updated]
    \<and> get updated ''id'' = get ([?rec] ! 0) ''id''
    \<and> get updated ''nation'' = get ([?rec] ! 0) ''nation''
    \<and> get updated (idFieldForCategory Aircraft) = get ([?rec] ! 0) (idFieldForCategory Aircraft)
    \<and> (\<forall>k. k \<noteq> ''id'' \<and> k \<noteq> ''nation'' \<and> k \<noteq> idFieldForCategory Aircraft \<longrightarrow>
        get updated k = (if k \<in> fst ` set ?body then get ?body k else get ([?rec] ! 0) k))"
  from patch_preserves_key_fields [OF h1 h2 h3 h4 h5, THEN conjunct1]
  obtain c' where "\<exists>updated. ?Q c' updated" ..
  then obtain updated where u: "?Q c' updated" ..
  note u1 = u [THEN conjunct1]
  note u3 = u [THEN conjunct2, THEN conjunct2, THEN conjunct1]
  note u4 = u [THEN conjunct2, THEN conjunct2, THEN conjunct2, THEN conjunct1]
  note u5 = u [THEN conjunct2, THEN conjunct2, THEN conjunct2, THEN conjunct2, THEN conjunct1]
  note u6 = u [THEN conjunct2, THEN conjunct2, THEN conjunct2, THEN conjunct2, THEN conjunct2]
  from u6 [rule_format, OF br]
  have b: "get updated ''br'' = JNum (Fin (133 / 10))" by (simp add: get_def)
  from u3 have k1: "get updated ''id'' = JNum (Fin 1)" by (simp add: get_def)
  from u4 have k2: "get updated ''nation'' = JStr ''usa''" by (simp add: get_def)
  from u5 have k3: "get updated ''aircraftid'' = JStr ''f-22''" by (simp add: get_def)
  have ex: "\<exists>c' updated.
        patch_update Aircraft True ''usa'' ''f-22'' ?body (Some [(''usa'', [?rec])]) =
          (Some c', Item 200 updated)
      \<and> get updated ''id'' = JNum (Fin 1)
      \<and> get updated ''nation'' = JStr ''usa''
      \<and> get updated ''aircraftid'' = JStr ''f-22''
      \<and> get updated ''br'' = JNum (Fin (133 / 10))"
    using u1 k1 k2 k3 b by (intro exI conjI)
  show ?thesis
    using h1 h2 h3 h4 h5 ex by (intro conjI)
qed

subsection \<open>Uniqueness of the id-field within a nation\<close>



subsection \<open>Validation of the optional fields\<close>

text \<open>
  C6, as the specification states it, fails for create: neither POST handler calls the
  validator, so a body with rank 99 (which \<open>validateGenericData\<close> would reject) is
  stored and answered with 201.
\<close>

theorem create_skips_range_rules:
  "spec_violation 1 (Some 8) (get [(''aircraftid'', JStr ''f-22''), (''name'', JStr ''F-22''), (''rank'', JNum (Fin 99))] ''rank'')
   \<and> validateGenericData Aircraft [(''aircraftid'', JStr ''f-22''), (''name'', JStr ''F-22''), (''rank'', JNum (Fin 99))] False = [''rank must be a number between 1 and 8'']
   \<and> post_create Aircraft True ''usa'' [(''aircraftid'', JStr ''f-22''), (''name'', JStr ''F-22''), (''rank'', JNum (Fin 99))] (Some [(''usa'', [])]) =
       (Some [(''usa'', [[(''id'', JNum (Fin 1)), (''nation'', JStr ''usa''),
                          (''aircraftid'', JStr ''f-22''), (''name'', JStr ''F-22''),
                          (''rank'', JNum (Fin 99))]])],
        Item 201 [(''id'', JNum (Fin 1)), (''nation'', JStr ''usa''),
                  (''aircraftid'', JStr ''f-22''), (''name'', JStr ''F-22''),
                  (''rank'', JNum (Fin 99))])
   \<and> aircraft_post True ''usa'' [(''aircraftid'', JStr ''f-22''), (''name'', JStr ''F-22''), (''rank'', JNum (Fin 99))] (Some [(''usa'', [])]) =
       (Some [(''usa'', [[(''id'', JNum (Fin 1)), (''aircraftid'', JStr ''f-22''),
                          (''name'', JStr ''F-22''), (''nation'', JStr ''usa''),
                          (''rank'', JNum (Fin 99))]])],
        Item 201 [(''id'', JNum (Fin 1)), (''aircraftid'', JStr ''f-22''),
                  (''name'', JStr ''F-22''), (''nation'', JStr ''usa''),
                  (''rank'', JNum (Fin 99))])"
  by code_simp

text \<open>
  C6, amended. An update addressed to a nation present in the collection whose body
  violates a range rule is answered with 400 and leaves the collection as it was,
  whether or not the identifier resolves; the details are the messages of all violated
  rules, in the order rank, br, crew, and of no other rule. A create with the same body
  is accepted with 201 as soon as its id-field and name are filled and no record of the
  nation has that id-field value.
\<close>

theorem update_validation_lists_all_violations:
  assumes "map_of c nation = Some items"
    and "spec_violation 1 (Some 8) (get body ''rank'')
       \<or> spec_violation 1 (Some 15) (get body ''br'')
       \<or> spec_violation 1 None (get body ''crew'')"
  shows "(\<exists>errs.
           patch_update category saved nation ident body (Some c) =
             (Some c, Err 400 ''Validation failed'' (DErrors errs))
         \<and> aircraft_patch saved nation ident body (Some c) =
             (Some c, Err 400 ''Validation failed'' (DErrors errs))
         \<and> errs =
             (if spec_violation 1 (Some 8) (get body ''rank'')
              then [''rank must be a number between 1 and 8''] else [])
           @ (if spec_violation 1 (Some 15) (get body ''br'')
              then [''br (battle rating) must be a number between 1.0 and 15.0''] else [])
           @ (if spec_violation 1 None (get body ''crew'')
              then [''crew must be a positive number''] else []))
       \<and> (\<not> not_filled (get body (idFieldForCategory category))
          \<and> \<not> not_filled (get body ''name'')
          \<and> (\<forall>r\<in>set items.
                get r (idFieldForCategory category) \<noteq> get body (idFieldForCategory category)) \<longrightarrow>
          (\<exists>c' item. post_create category True nation body (Some c) = (Some c', Item 201 item)
             \<and> nation_items c' nation = items @ [item]))"
proof (rule conjI)
  have ne: "validateGenericData category body True \<noteq> []"
    "validateGenericData Aircraft body True \<noteq> []"
    using assms(2) by (simp_all only: update_errors_nonempty)
  have same: "validateGenericData Aircraft body True = validateGenericData category body True"
    by (simp only: update_errors)
  show "\<exists>errs.
           patch_update category saved nation ident body (Some c) =
             (Some c, Err 400 ''Validation failed'' (DErrors errs))
         \<and> aircraft_patch saved nation ident body (Some c) =
             (Some c, Err 400 ''Validation failed'' (DErrors errs))
         \<and> errs =
             (if spec_violation 1 (Some 8) (get body ''rank'')
              then [''rank must be a number between 1 and 8''] else [])
           @ (if spec_violation 1 (Some 15) (get body ''br'')
              then [''br (battle rating) must be a number between 1.0 and 15.0''] else [])
           @ (if spec_violation 1 None (get body ''crew'')
              then [''crew must be a positive number''] else [])"
    using patch_update_invalid [OF assms(1) ne(1), of saved ident]
      aircraft_patch_invalid [OF assms(1) ne(2), of saved ident] same
      update_errors [of category body]
    by simp
next
  show "\<not> not_filled (get body (idFieldForCategory category))
          \<and> \<not> not_filled (get body ''name'')
          \<and> (\<forall>r\<in>set items.
                get r (idFieldForCategory category) \<noteq> get body (idFieldForCategory category)) \<longrightarrow>
          (\<exists>c' item. post_create category True nation body (Some c) = (Some c', Item 201 item)
             \<and> nation_items c' nation = items @ [item])"
  proof
    assume h: "\<not> not_filled (get body (idFieldForCategory category))
          \<and> \<not> not_filled (get body ''name'')
          \<and> (\<forall>r\<in>set items.
                get r (idFieldForCategory category) \<noteq> get body (idFieldForCategory category))"
    have n: "nation_items c nation = items"
      using assms(1) by (rule nation_items_present)
    from h have fresh: "\<forall>r\<in>set (nation_items c nation).
        \<not> strict_eq (get r (idFieldForCategory category)) (get body (idFieldForCategory category))"
      by (simp add: strict_eq_filled n)
    from h have f: "\<not> not_filled (get body (idFieldForCategory category))"
      "\<not> not_filled (get body ''name'')" by simp_all
    show "\<exists>c' item. post_create category True nation body (Some c) = (Some c', Item 201 item)
             \<and> nation_items c' nation = items @ [item]"
      using post_create_fresh [OF f fresh, where saved = True]
      by (simp add: Let_def n nation_items_set_prop)
  qed
qed

theorem update_validation_lists_all_violations_witness:
  "map_of [(''usa'', [])] ''usa'' = Some ([] :: obj list)
   \<and> spec_violation 1 (Some 8) (get [(''aircraftid'', JStr ''f-22''), (''name'', JStr ''F-22''), (''rank'', JNum (Fin 99)), (''br'', JStr ''high'')] ''rank'')
   \<and> spec_violation 1 (Some 15) (get [(''aircraftid'', JStr ''f-22''), (''name'', JStr ''F-22''), (''rank'', JNum (Fin 99)), (''br'', JStr ''high'')] ''br'')
   \<and> \<not> spec_violation 1 None (get [(''aircraftid'', JStr ''f-22''), (''name'', JStr ''F-22''), (''rank'', JNum (Fin 99)), (''br'', JStr ''high'')] ''crew'')
   \<and> patch_update Aircraft True ''usa'' ''1'' [(''aircraftid'', JStr ''f-22''), (''name'', JStr ''F-22''), (''rank'', JNum (Fin 99)), (''br'', JStr ''high'')] (Some [(''usa'', [])]) =
        (Some [(''usa'', [])],
         Err 400 ''Validation failed''
           (DErrors [''rank must be a number between 1 and 8'',
                     ''br (battle rating) must be a number between 1.0 and 15.0'']))
   \<and> \<not> not_filled (get [(''aircraftid'', JStr ''f-22''), (''name'', JStr ''F-22''), (''rank'', JNum (Fin 99)), (''br'', JStr ''high'')] ''aircraftid'')
   \<and> \<not> not_filled (get [(''aircraftid'', JStr ''f-22''), (''name'', JStr ''F-22''), (''rank'', JNum (Fin 99)), (''br'', JStr ''high'')] ''name'')
   \<and> (\<exists>c' item. post_create Aircraft True ''usa'' [(''aircraftid'', JStr ''f-22''), (''name'', JStr ''F-22''), (''rank'', JNum (Fin 99)), (''br'', JStr ''high'')] (Some [(''usa'', [])]) =
          (Some c', Item 201 item) \<and> nation_items c' ''usa'' = [] @ [item])"
proof -
  let ?body = "[(''aircraftid'', JStr ''f-22''), (''name'', JStr ''F-22''), (''rank'', JNum (Fin 99)), (''br'', JStr ''high'')]"
  have h1: "map_of [(''usa'', [])] ''usa'' = Some ([] :: obj list)" by simp
  have v1: "spec_violation 1 (Some 8) (get ?body ''rank'')" by code_simp
  have v2: "spec_violation 1 (Some 15) (get ?body ''br'')" by code_simp
  have v3: "\<not> spec_violation 1 None (get ?body ''crew'')" by code_simp
  have f1: "\<not> not_filled (get ?body ''aircraftid'')" by code_simp
  have f2: "\<not> not_filled (get ?body ''name'')" by code_simp
  have h2: "spec_violation 1 (Some 8) (get ?body ''rank'')
       \<or> spec_violation 1 (Some 15) (get ?body ''br'')
       \<or> spec_violation 1 None (get ?body ''crew'')"
    using v1 by (rule disjI1)
  note T = update_validation_lists_all_violations [OF h1 h2, where category = Aircraft
      and saved = True and ident = "''1''"]
  from T [THEN conjunct1]
  have r: "patch_update Aircraft True ''usa'' ''1'' ?body (Some [(''usa'', [])]) =
        (Some [(''usa'', [])],
         Err 400 ''Validation failed''
           (DErrors [''rank must be a number between 1 and 8'',
                     ''br (battle rating) must be a number between 1.0 and 15.0'']))"
    using v1 v2 v3 by simp
  have pre: "\<not> not_filled (get ?body (idFieldForCategory Aircraft))
          \<and> \<not> not_filled (get ?body ''name'')
          \<and> (\<forall>r\<in>set ([] :: obj list).
                get r (idFieldForCategory Aircraft) \<noteq> get ?body (idFieldForCategory Aircraft))"
    using f1 f2 by simp
  note cr = T [THEN conjunct2, THEN mp, OF pre]
  show ?thesis
    using h1 v1 v2 v3 r f1 f2 cr by (intro conjI)
qed

subsection \<open>Listing by nation\<close>



subsection \<open>The next numeric id\<close>



subsection \<open>Pagination of the flattened listing\<close>

text \<open>
  C9. Whatever the \<open>page\<close> and \<open>limit\<close> query values, the effective page is at least 1
  and the effective limit lies between 1 and 100. When the search step yields the list
  \<open>items\<close>, the response carries the slice of that page, of length at most the limit, and
  the slices answered to requests whose effective pages are 1, 2, ..., up to the total
  page count, concatenated in that order, are exactly \<open>items\<close>. This holds for the route
  factory and for the aircraft listing of \<open>server.js\<close>.
\<close>

theorem pages_partition_the_listing:
  "1 \<le> page_of pageq \<and> 1 \<le> limit_of limitq \<and> limit_of limitq \<le> 100
   \<and> (search_items category q (concat (map snd (case cache of None \<Rightarrow> [] | Some c \<Rightarrow> c))) = Some items \<longrightarrow>
        get_all category q pageq limitq cache =
          Page (length items) (page_of pageq) (limit_of limitq)
            (totalPages (length items) (limit_of limitq))
            (paginate items (page_of pageq) (limit_of limitq))
      \<and> length (page_items (get_all category q pageq limitq cache)) \<le> nat (limit_of limitq)
      \<and> (map page_of pqs = map int [1..<Suc (nat (totalPages (length items) (limit_of limitq)))] \<longrightarrow>
           concat (map (\<lambda>pq. page_items (get_all category q pq limitq cache)) pqs) = items))
   \<and> (search_aircraft q (concat (map snd aircraft)) = Some items \<longrightarrow>
        aircraft_get_all q pageq limitq (Some aircraft) =
          Page (length items) (page_of pageq) (limit_of limitq)
            (totalPages (length items) (limit_of limitq))
            (paginate items (page_of pageq) (limit_of limitq))
      \<and> length (page_items (aircraft_get_all q pageq limitq (Some aircraft))) \<le> nat (limit_of limitq)
      \<and> (map page_of pqs = map int [1..<Suc (nat (totalPages (length items) (limit_of limitq)))] \<longrightarrow>
           concat (map (\<lambda>pq. page_items (aircraft_get_all q pq limitq (Some aircraft))) pqs) = items))"
proof -
  have lim: "1 \<le> limit_of limitq" "limit_of limitq \<le> 100"
    using limit_of_bounds [of limitq] by simp_all
  have pg: "1 \<le> page_of pageq" by (rule page_of_floor)
  have len: "length (paginate items (page_of pageq) (limit_of limitq)) \<le> nat (limit_of limitq)"
    using pg lim(1) by (rule paginate_length)
  have cat: "map page_of pqs = map int [1..<Suc (nat (totalPages (length items) (limit_of limitq)))] \<Longrightarrow>
      concat (map (\<lambda>pq. paginate items (page_of pq) (limit_of limitq)) pqs) = items"
    using lim(1) by (rule pages_concat)
  have generic: "search_items category q (concat (map snd (case cache of None \<Rightarrow> [] | Some c \<Rightarrow> c))) = Some items \<Longrightarrow>
        get_all category q pageq limitq cache =
          Page (length items) (page_of pageq) (limit_of limitq)
            (totalPages (length items) (limit_of limitq))
            (paginate items (page_of pageq) (limit_of limitq))
      \<and> length (page_items (get_all category q pageq limitq cache)) \<le> nat (limit_of limitq)
      \<and> (map page_of pqs = map int [1..<Suc (nat (totalPages (length items) (limit_of limitq)))] \<longrightarrow>
           concat (map (\<lambda>pq. page_items (get_all category q pq limitq cache)) pqs) = items)"
    using len cat by (simp add: get_all_page)
  have air: "search_aircraft q (concat (map snd aircraft)) = Some items \<Longrightarrow>
        aircraft_get_all q pageq limitq (Some aircraft) =
          Page (length items) (page_of pageq) (limit_of limitq)
            (totalPages (length items) (limit_of limitq))
            (paginate items (page_of pageq) (limit_of limitq))
      \<and> length (page_items (aircraft_get_all q pageq limitq (Some aircraft))) \<le> nat (limit_of limitq)
      \<and> (map page_of pqs = map int [1..<Suc (nat (totalPages (length items) (limit_of limitq)))] \<longrightarrow>
           concat (map (\<lambda>pq. page_items (aircraft_get_all q pq limitq (Some aircraft))) pqs) = items)"
    using len cat by (simp add: aircraft_get_all_page)
  show ?thesis
    using lim pg generic air by blast
qed

theorem pages_partition_the_listing_witness:
  "search_items Aircraft None
      (concat (map snd [(''usa'', [[(''id'', JNum (Fin 1))], [(''id'', JNum (Fin 2))]]),
                        (''ussr'', [[(''id'', JNum (Fin 1))]])])) =
     Some [[(''id'', JNum (Fin 1))], [(''id'', JNum (Fin 2))], [(''id'', JNum (Fin 1))]]
   \<and> map page_of [Some ''1'', Some ''2''] =
       map int [1..<Suc (nat (totalPages (length [[(''id'', JNum (Fin 1))], [(''id'', JNum (Fin 2))],
                                                   [(''id'', JNum (Fin 1))]])
                                (limit_of (Some ''2''))))]
   \<and> concat (map (\<lambda>pq. page_items
                  (get_all Aircraft None pq (Some ''2'')
                     (Some [(''usa'', [[(''id'', JNum (Fin 1))], [(''id'', JNum (Fin 2))]]),
                            (''ussr'', [[(''id'', JNum (Fin 1))]])])))
         [Some ''1'', Some ''2'']) =
       [[(''id'', JNum (Fin 1))], [(''id'', JNum (Fin 2))], [(''id'', JNum (Fin 1))]]
   \<and> search_aircraft None
      (concat (map snd [(''usa'', [[(''id'', JNum (Fin 1))], [(''id'', JNum (Fin 2))]]),
                        (''ussr'', [[(''id'', JNum (Fin 1))]])])) =
     Some [[(''id'', JNum (Fin 1))], [(''id'', JNum (Fin 2))], [(''id'', JNum (Fin 1))]]
   \<and> concat (map (\<lambda>pq. page_items
                  (aircraft_get_all None pq (Some ''2'')
                     (Some [(''usa'', [[(''id'', JNum (Fin 1))], [(''id'', JNum (Fin 2))]]),
                            (''ussr'', [[(''id'', JNum (Fin 1))]])])))
         [Some ''1'', Some ''2'']) =
       [[(''id'', JNum (Fin 1))], [(''id'', JNum (Fin 2))], [(''id'', JNum (Fin 1))]]"
proof -
  let ?c = "[(''usa'', [[(''id'', JNum (Fin 1))], [(''id'', JNum (Fin 2))]]),
             (''ussr'', [[(''id'', JNum (Fin 1))]])]"
  let ?items = "[[(''id'', JNum (Fin 1))], [(''id'', JNum (Fin 2))], [(''id'', JNum (Fin 1))]]"
  have h1: "search_items Aircraft None
      (concat (map snd (case Some ?c of None \<Rightarrow> [] | Some c \<Rightarrow> c))) = Some ?items"
    by (simp add: search_items_def)
  have h2: "map page_of [Some ''1'', Some ''2''] =
       map int [1..<Suc (nat (totalPages (length ?items) (limit_of (Some ''2''))))]"
    by code_simp
  have h3: "search_aircraft None (concat (map snd ?c)) = Some ?items"
    by (simp add: search_aircraft_def)
  have g1: "search_items Aircraft None (concat (map snd ?c)) = Some ?items"
    by (simp add: search_items_def)
  note T = pages_partition_the_listing [where category = Aircraft and q = None and cache = "Some ?c"
        and items = ?items and limitq = "Some ''2''" and pqs = "[Some ''1'', Some ''2'']"
        and aircraft = ?c and pageq = "Some ''1''"]
  from T h1 h2 have g3: "concat (map (\<lambda>pq. page_items
                  (get_all Aircraft None pq (Some ''2'') (Some ?c))) [Some ''1'', Some ''2'']) = ?items"
    by blast
  from T h3 h2 have g5: "concat (map (\<lambda>pq. page_items
                  (aircraft_get_all None pq (Some ''2'') (Some ?c))) [Some ''1'', Some ''2'']) = ?items"
    by blast
  show ?thesis
    using g1 h2 g3 h3 g5 by blast
qed

subsection \<open>A failed create into a new nation\<close>



end
